theory Spec2Isabelle
  imports Complex_Main
begin

section \<open>Volume-constrained lake filling: \<open>lake_fill_with_flux.py\<close>\<close>

text \<open>
  A shallow embedding of the functions of
  \<^verbatim>\<open>landlab/components/lake_fill/lake_fill_with_flux.py\<close>.

  Conventions of the embedding.
  \<^item> Python and NumPy floats are modelled as \<^typ>\<open>real\<close>: rounding, infinities and
    NaN are outside the model. A division whose divisor is zero has no real
    value; it is the error \<open>ZeroDivisionError\<close> (what Python floats do; NumPy
    scalars give a non-finite value and a warning instead).
  \<^item> Node and lake identifiers are Python integers, modelled as \<^typ>\<open>int\<close>
    (the 64-bit bound of the NumPy integer array is not modelled).
  \<^item> A NumPy array is a list; reading or writing it at an integer index follows
    NumPy: an index in \<open>[-n, 0)\<close> counts from the end, anything outside
    \<open>[-n, n)\<close> is \<open>IndexError\<close>.
  \<^item> A dict is a map \<open>int \<rightharpoonup> 'v\<close>; reading a missing key is \<open>KeyError\<close>.
  \<^item> Every function mutates its arguments in place; the model passes the
    mutable arguments as one record and returns the record updated. A raise is
    the value \<open>Inl e\<close>; the partially updated arguments at the moment of the
    raise are not modelled.
  \<^item> The \<open>print\<close> calls write nothing the program reads back; only the look-ups
    they perform (which can raise) are kept.
  \<^item> A leading underscore is not an Isabelle identifier: \<open>_raise_water_level\<close>
    is \<open>raise_water_level\<close>, and likewise for the other private functions.
\<close>

subsection \<open>Errors, arrays and dicts\<close>

datatype error = KeyError | IndexError | ZeroDivisionError | AssertionError

definition bind_err :: "error + 'a \<Rightarrow> ('a \<Rightarrow> error + 'b) \<Rightarrow> error + 'b" where
  "bind_err m f = (case m of Inl e \<Rightarrow> Inl e | Inr x \<Rightarrow> f x)"

definition np_index :: "'a list \<Rightarrow> int \<Rightarrow> nat option" where
  "np_index xs i =
     (let n = int (length xs)
      in if 0 \<le> i \<and> i < n then Some (nat i)
         else if - n \<le> i \<and> i < 0 then Some (nat (i + n))
         else None)"

definition np_get :: "'a list \<Rightarrow> int \<Rightarrow> error + 'a" where
  "np_get xs i = (case np_index xs i of None \<Rightarrow> Inl IndexError | Some j \<Rightarrow> Inr (xs ! j))"

definition np_set :: "'a list \<Rightarrow> int \<Rightarrow> 'a \<Rightarrow> error + 'a list" where
  "np_set xs i v = (case np_index xs i of None \<Rightarrow> Inl IndexError | Some j \<Rightarrow> Inr (xs[j := v]))"

definition dict_get :: "(int \<rightharpoonup> 'v) \<Rightarrow> int \<Rightarrow> error + 'v" where
  "dict_get d k = (case d k of None \<Rightarrow> Inl KeyError | Some v \<Rightarrow> Inr v)"

subsection \<open>The lake-boundary queue\<close>

text \<open>
  Modelled from the spec: the class \<open>StablePriorityQueue\<close> is imported from
  \<open>landlab.components.lake_fill\<close> and is not among the sources. The spec
  describes it as an ordered frontier of candidate nodes, lowest elevation
  next, that supports merging two queues into one. The model keeps the entries
  \<open>(priority, task)\<close> in insertion order: \<open>add_task\<close> replaces the entry of a
  task already queued, \<open>pop_task\<close> removes the earliest entry of least priority
  and raises \<open>KeyError\<close> on an empty queue, \<open>merge_queues\<close> adds the entries of
  the second queue to the first, in order.
\<close>

type_synonym queue = "(real \<times> int) list"

definition add_task :: "queue \<Rightarrow> int \<Rightarrow> real \<Rightarrow> queue" where
  "add_task q task priority = filter (\<lambda>e. snd e \<noteq> task) q @ [(priority, task)]"

fun remove_first :: "real \<Rightarrow> queue \<Rightarrow> int \<times> queue" where
  "remove_first m [] = (-1, [])"
| "remove_first m (e # q) =
     (if fst e = m then (snd e, q)
      else (fst (remove_first m q), e # snd (remove_first m q)))"

definition pop_task :: "queue \<Rightarrow> error + (int \<times> queue)" where
  "pop_task q =
     (case q of [] \<Rightarrow> Inl KeyError
      | e # r \<Rightarrow> Inr (remove_first (fold min (map fst r) (fst e)) q))"

definition merge_queues :: "queue \<Rightarrow> queue \<Rightarrow> queue" where
  "merge_queues q q2 = fold (\<lambda>e acc. add_task acc (snd e) (fst e)) q2 q"

subsection \<open>The mutable arguments\<close>

text \<open>
  The arrays and dicts that \<open>_raise_lake_to_limit\<close>, \<open>_merge_two_lakes\<close> and
  \<open>_raise_water_level\<close> update in place, under the names of the parameters.
  The node ownership array \<open>lake_map\<close> holds \<open>-1\<close> for an unclaimed node, a lake
  id \<open>p\<close> for a flooded node, \<open>p + nnodes\<close> for a candidate neighbour of lake
  \<open>p\<close> and \<open>p + 2 * nnodes\<close> for its spill node.
\<close>

record lake_state =
  lake_map :: "int list"
  master_pit_q :: queue
  lake_q_dict :: "int \<rightharpoonup> queue"
  lake_water_level :: "int \<rightharpoonup> real"
  accum_area_at_pit :: "int \<rightharpoonup> real"
  vol_rem_at_pit :: "int \<rightharpoonup> real"
  accum_Ks_at_pit :: "int \<rightharpoonup> real"
  lake_is_full :: "int \<rightharpoonup> bool"
  lake_spill_node :: "int \<rightharpoonup> int"

subsection \<open>The volume-balance model\<close>

text \<open>
  Each of the two terms \<open>(c, K)\<close> of \<open>water_vol_balance_terms\<close> is a float or an
  array with one value per node (the test \<open>type(...) is np.ndarray\<close>).
\<close>

datatype coef = Scalar real | PerNode "real list"

definition get_float_water_vol_balance_terms ::
  "coef \<times> coef \<Rightarrow> real list \<Rightarrow> int \<Rightarrow> error + (real \<times> real)" where
  "get_float_water_vol_balance_terms water_vol_balance_terms area_map node =
     bind_err (np_get area_map node) (\<lambda>cell_A.
     bind_err (case fst water_vol_balance_terms of
                 PerNode cs \<Rightarrow> np_get cs node | Scalar c \<Rightarrow> Inr c) (\<lambda>c.
     bind_err (case snd water_vol_balance_terms of
                 PerNode ks \<Rightarrow> np_get ks node | Scalar k \<Rightarrow> Inr k) (\<lambda>K.
     Inr (c * cell_A, K * cell_A))))"

subsection \<open>The node fill evaluator\<close>

text \<open>
  Lines 738 to 747 of the source: the node joins the lake, and on first contact
  (\<open>flood_from_zero\<close>) its area is added to the lake's area and its constant
  term to the lake's remaining volume. The result carries the volume
  \<open>z_increment * accum_area_at_pit[cpit]\<close> computed in between, and the
  depth-proportional term \<open>K_to_lift\<close>.
\<close>

definition first_contact ::
  "int \<Rightarrow> int \<Rightarrow> real list \<Rightarrow> real \<Rightarrow> coef \<times> coef \<Rightarrow> bool \<Rightarrow> lake_state
     \<Rightarrow> error + (real \<times> real \<times> lake_state)" where
  "first_contact cpit cnode area_map z_increment water_vol_balance_terms flood_from_zero s =
     bind_err (np_set (lake_map s) cnode cpit) (\<lambda>lm.
     bind_err (if flood_from_zero
               then bind_err (dict_get (accum_area_at_pit s) cpit) (\<lambda>a0.
                    bind_err (np_get area_map cnode) (\<lambda>a.
                    Inr ((accum_area_at_pit s)(cpit \<mapsto> a0 + a))))
               else Inr (accum_area_at_pit s)) (\<lambda>areas.
     bind_err (dict_get areas cpit) (\<lambda>A.
     bind_err (get_float_water_vol_balance_terms water_vol_balance_terms area_map cnode) (\<lambda>ck.
     bind_err (if flood_from_zero
               then bind_err (dict_get (vol_rem_at_pit s) cpit) (\<lambda>v.
                    Inr ((vol_rem_at_pit s)(cpit \<mapsto> v + fst ck)))
               else Inr (vol_rem_at_pit s)) (\<lambda>vols.
     Inr (z_increment * A, snd ck,
          s\<lparr>lake_map := lm, accum_area_at_pit := areas, vol_rem_at_pit := vols\<rparr>))))))"

text \<open>
  Lines 752 to 771: the volume needed for the whole increment, less the gain of
  the depth-proportional term, is compared with the remaining volume.
\<close>

definition fill_decision ::
  "int \<Rightarrow> real \<Rightarrow> real \<Rightarrow> real \<Rightarrow> lake_state \<Rightarrow> error + ((bool \<times> real) \<times> lake_state)" where
  "fill_decision cpit z_increment V0 K_to_lift s =
     bind_err (dict_get (accum_Ks_at_pit s) cpit) (\<lambda>Ks.
     let V_gain_in_full_fill = (K_to_lift + Ks) * z_increment;
         V_increment_to_fill = V0 - V_gain_in_full_fill
     in bind_err (dict_get (vol_rem_at_pit s) cpit) (\<lambda>v.
        if v < V_increment_to_fill
        then (if V_increment_to_fill = 0 then Inl ZeroDivisionError
              else let frac = v / V_increment_to_fill;
                       z_available = frac * z_increment
                   in Inr ((False, z_available),
                           s\<lparr>lake_spill_node := (lake_spill_node s)(cpit \<mapsto> -1),
                             vol_rem_at_pit := (vol_rem_at_pit s)(cpit \<mapsto> 0)\<rparr>))
        else Inr ((True, z_increment),
                  s\<lparr>accum_Ks_at_pit := (accum_Ks_at_pit s)(cpit \<mapsto> Ks + K_to_lift),
                    vol_rem_at_pit := (vol_rem_at_pit s)(cpit \<mapsto> v - V_increment_to_fill)\<rparr>)))"

text \<open>
  \<open>_raise_water_level\<close>: after the first-contact updates, a first contact
  whose remaining volume has fallen below zero returns at once (lines 748 to
  750); every other call goes on to the fill decision.
\<close>

definition raise_water_level ::
  "int \<Rightarrow> int \<Rightarrow> real list \<Rightarrow> real \<Rightarrow> coef \<times> coef \<Rightarrow> bool \<Rightarrow> lake_state
     \<Rightarrow> error + ((bool \<times> real) \<times> lake_state)" where
  "raise_water_level cpit cnode area_map z_increment water_vol_balance_terms flood_from_zero s =
     bind_err (first_contact cpit cnode area_map z_increment water_vol_balance_terms
                 flood_from_zero s) (\<lambda>r.
     let V0 = fst r; K_to_lift = fst (snd r); s1 = snd (snd r)
     in if flood_from_zero \<and> (case vol_rem_at_pit s1 cpit of Some v \<Rightarrow> v < 0 | None \<Rightarrow> False)
        then Inr ((False, 0), s1\<lparr>lake_spill_node := (lake_spill_node s1)(cpit \<mapsto> -1)\<rparr>)
        else fill_decision cpit z_increment V0 K_to_lift s1)"

subsection \<open>Merging two lakes\<close>

text \<open>
  \<open>np.isclose(a, b)\<close> with NumPy's default tolerances \<open>rtol = 1e-05\<close> and
  \<open>atol = 1e-08\<close>: \<open>|a - b| <= atol + rtol * |b|\<close>.
\<close>

definition isclose :: "real \<Rightarrow> real \<Rightarrow> bool" where
  "isclose a b = (\<bar>a - b\<bar> \<le> 1 / 10 ^ 8 + 1 / 10 ^ 5 * \<bar>b\<bar>)"

text \<open>\<open>dct[low_pit] += dct.pop(hi_pit)\<close>: the target is read first, then the key popped.\<close>

definition merge_entry :: "(int \<rightharpoonup> real) \<Rightarrow> int \<Rightarrow> int \<Rightarrow> error + (int \<rightharpoonup> real)" where
  "merge_entry dct low_pit hi_pit =
     bind_err (dict_get dct low_pit) (\<lambda>a.
     bind_err (dict_get dct hi_pit) (\<lambda>b.
     Inr ((dct(hi_pit := None))(low_pit \<mapsto> a + b))))"

definition dict_pop :: "(int \<rightharpoonup> 'v) \<Rightarrow> int \<Rightarrow> error + (int \<rightharpoonup> 'v)" where
  "dict_pop dct k = bind_err (dict_get dct k) (\<lambda>v. Inr (dct(k := None)))"

text \<open>
  \<open>_merge_two_lakes\<close>. The two \<open>print\<close> calls before the queues are merged
  look both queues up. The result is the returned id and the updated arguments.
\<close>

definition merge_two_lakes ::
  "int \<Rightarrow> int \<Rightarrow> real list \<Rightarrow> lake_state \<Rightarrow> error + (int \<times> lake_state)" where
  "merge_two_lakes this_pit that_pit z_topo s =
     bind_err (dict_get (lake_water_level s) this_pit) (\<lambda>level_this.
     bind_err (dict_get (lake_water_level s) that_pit) (\<lambda>level_that.
     if \<not> isclose level_this level_that then Inl AssertionError
     else
     bind_err (np_get z_topo this_pit) (\<lambda>z_this.
     bind_err (np_get z_topo that_pit) (\<lambda>z_that.
     let low_pit = (if z_this < z_that then this_pit else that_pit);
         hi_pit = (if z_this < z_that then that_pit else this_pit)
     in
     bind_err (dict_get (lake_q_dict s) this_pit) (\<lambda>q_this.
     bind_err (dict_get (lake_q_dict s) that_pit) (\<lambda>q_that.
     bind_err (dict_get (lake_q_dict s) low_pit) (\<lambda>q_low.
     bind_err (dict_get (lake_q_dict s) hi_pit) (\<lambda>q_hi.
     let queues = ((lake_q_dict s)(low_pit \<mapsto> merge_queues q_low q_hi))(hi_pit := None);
         owners = map (\<lambda>v. if v = hi_pit then low_pit else v) (lake_map s)
     in
     bind_err (merge_entry (accum_area_at_pit s) low_pit hi_pit) (\<lambda>areas.
     bind_err (merge_entry (vol_rem_at_pit s) low_pit hi_pit) (\<lambda>vols.
     bind_err (merge_entry (accum_Ks_at_pit s) low_pit hi_pit) (\<lambda>Ks.
     bind_err (dict_pop (lake_water_level s) hi_pit) (\<lambda>levels.
     bind_err (dict_pop (lake_is_full s) hi_pit) (\<lambda>fulls.
     bind_err (dict_pop (lake_spill_node s) hi_pit) (\<lambda>spills.
     Inr (low_pit,
          s\<lparr>lake_map := owners, lake_q_dict := queues,
            lake_water_level := levels, accum_area_at_pit := areas,
            vol_rem_at_pit := vols, accum_Ks_at_pit := Ks,
            lake_is_full := fulls,
            lake_spill_node := spills(low_pit \<mapsto> -1)\<rparr>)))))))))))))))"

subsection \<open>The level-raising engine\<close>

text \<open>
  Lines 368 to 378 of \<open>_raise_lake_to_limit\<close>: whether the current node is
  fresh, the increment up to the next node, the call of the evaluator, and the
  increment it returns added to the lake's level.
\<close>

definition raise_step ::
  "int \<Rightarrow> int \<Rightarrow> int \<Rightarrow> real list \<Rightarrow> real list \<Rightarrow> coef \<times> coef \<Rightarrow> int \<Rightarrow> lake_state
     \<Rightarrow> error + (bool \<times> lake_state)" where
  "raise_step cpit cnode nnode area_map surf_z water_vol_balance_terms nnodes s =
     bind_err (np_get (lake_map s) cnode) (\<lambda>code.
     let freshnode = (code < 0 \<or> code \<ge> nnodes) in
     bind_err (np_get surf_z nnode) (\<lambda>z_next.
     bind_err (dict_get (lake_water_level s) cpit) (\<lambda>level.
     bind_err (raise_water_level cpit cnode area_map (z_next - level)
                 water_vol_balance_terms freshnode s) (\<lambda>r.
     let filled = fst (fst r); z_increment = snd (fst r); s1 = snd r in
     bind_err (dict_get (lake_water_level s1) cpit) (\<lambda>level1.
     Inr (filled,
          s1\<lparr>lake_water_level := (lake_water_level s1)(cpit \<mapsto> level1 + z_increment)\<rparr>))))))"

text \<open>
  Lines 434 to 458: one neighbour \<open>n\<close> of the node just filled. The pair is the
  delayed break flag \<open>tobreak\<close> and the arguments.
\<close>

definition visit_neighbor ::
  "int \<Rightarrow> int \<Rightarrow> int \<Rightarrow> int \<Rightarrow> real list \<Rightarrow> bool list \<Rightarrow> int \<Rightarrow> bool \<times> lake_state
     \<Rightarrow> error + (bool \<times> lake_state)" where
  "visit_neighbor cpit cnode pit_nghb_code spill_code surf_z closednodes n ts =
     (let tobreak = fst ts; s = snd ts in
      bind_err (np_get closednodes n) (\<lambda>closed.
      if closed then Inr ts
      else
      bind_err (np_get (lake_map s) n) (\<lambda>code.
      if code = cpit \<or> code = pit_nghb_code then Inr ts
      else
      bind_err (np_get surf_z n) (\<lambda>z_n.
      bind_err (np_get surf_z cnode) (\<lambda>z_c.
      bind_err (dict_get (lake_water_level s) cpit) (\<lambda>level.
      if z_n < z_c
      then bind_err (np_set (lake_map s) cnode spill_code) (\<lambda>lm.
           Inr (True,
                s\<lparr>lake_map := lm,
                  lake_spill_node := (lake_spill_node s)(cpit \<mapsto> cnode),
                  master_pit_q := add_task (master_pit_q s) cpit level\<rparr>))
      else bind_err (dict_get (lake_q_dict s) cpit) (\<lambda>q.
           bind_err (np_set (lake_map s) n (max pit_nghb_code code)) (\<lambda>lm.
           Inr (tobreak,
                s\<lparr>lake_q_dict := (lake_q_dict s)(cpit \<mapsto> add_task q n z_n),
                  lake_map := lm\<rparr>)))))))))"

fun scan_neighbors ::
  "int \<Rightarrow> int \<Rightarrow> int \<Rightarrow> int \<Rightarrow> real list \<Rightarrow> bool list \<Rightarrow> int list \<Rightarrow> bool \<times> lake_state
     \<Rightarrow> error + (bool \<times> lake_state)" where
  "scan_neighbors cpit cnode pit_nghb_code spill_code surf_z closednodes [] ts = Inr ts"
| "scan_neighbors cpit cnode pit_nghb_code spill_code surf_z closednodes (n # ns) ts =
     (case visit_neighbor cpit cnode pit_nghb_code spill_code surf_z closednodes n ts of
        Inl e \<Rightarrow> Inl e
      | Inr ts' \<Rightarrow> scan_neighbors cpit cnode pit_nghb_code spill_code surf_z closednodes ns ts')"

text \<open>
  One pass through the body of the \<open>while\<close> loop (lines 356 to 458). It ends in
  a \<open>break\<close>, or goes back to the loop test with the lake id, the current node
  and the break flag it has then.
\<close>

datatype loop_ctl = Continue int int bool lake_state | Break lake_state

definition loop_body ::
  "real list \<Rightarrow> real list \<Rightarrow> coef \<times> coef \<Rightarrow> int list list \<Rightarrow> bool list \<Rightarrow> bool list
     \<Rightarrow> int \<Rightarrow> int \<Rightarrow> int \<Rightarrow> int \<Rightarrow> int \<Rightarrow> lake_state \<Rightarrow> error + loop_ctl" where
  "loop_body area_map surf_z water_vol_balance_terms neighbors closednodes drainingnodes
       nnodes pit_nghb_code spill_code cpit cnode s =
     bind_err (dict_get (lake_q_dict s) cpit) (\<lambda>q.
     bind_err (pop_task q) (\<lambda>popped.
     let nnode = fst popped;
         s1 = s\<lparr>lake_q_dict := (lake_q_dict s)(cpit \<mapsto> snd popped)\<rparr>
     in
     bind_err (np_get (lake_map s1) nnode) (\<lambda>code.
     if 0 \<le> code \<and> code < nnodes then Inr (Continue cpit cnode False s1)
     else
     bind_err (raise_step cpit cnode nnode area_map surf_z water_vol_balance_terms
                 nnodes s1) (\<lambda>raised.
     let filled = fst raised; s2 = snd raised in
     if \<not> filled
     then bind_err (dict_get (lake_q_dict s2) cpit) (\<lambda>q2.
          bind_err (np_get surf_z nnode) (\<lambda>z_next.
          bind_err (dict_get (lake_water_level s2) cpit) (\<lambda>level.
          Inr (Break
                (s2\<lparr>lake_is_full := (lake_is_full s2)(cpit \<mapsto> True),
                   lake_q_dict := (lake_q_dict s2)
                      (cpit \<mapsto> add_task (add_task q2 nnode z_next) cnode level)\<rparr>)))))
     else
     bind_err (np_get (lake_map s2) nnode) (\<lambda>code2.
     if code2 \<ge> 2 * nnodes
     then bind_err (merge_two_lakes cpit (code2 - 2 * nnodes) surf_z s2) (\<lambda>merged.
          bind_err (np_set (lake_map (snd merged)) nnode (fst merged)) (\<lambda>lm.
          Inr (Continue (fst merged) nnode False ((snd merged)\<lparr>lake_map := lm\<rparr>))))
     else
     bind_err (np_get drainingnodes nnode) (\<lambda>draining.
     if draining
     then bind_err (np_set (lake_map s2) nnode spill_code) (\<lambda>lm.
          Inr (Break
                (s2\<lparr>lake_map := lm,
                   lake_spill_node := (lake_spill_node s2)(cpit \<mapsto> nnode)\<rparr>)))
     else
     bind_err (np_get neighbors nnode) (\<lambda>cnghbs.
     bind_err (scan_neighbors cpit nnode pit_nghb_code spill_code surf_z closednodes
                 cnghbs (False, s2)) (\<lambda>scanned.
     Inr (Continue cpit nnode (fst scanned) (snd scanned))))))))))"

text \<open>
  The \<open>while not tobreak\<close> loop. Nothing in the source bounds the number of
  passes, so the model takes fuel, one unit for each pass: \<open>None\<close> is a run that
  had not left the loop when the fuel ran out.
\<close>

fun raise_loop ::
  "nat \<Rightarrow> real list \<Rightarrow> real list \<Rightarrow> coef \<times> coef \<Rightarrow> int list list \<Rightarrow> bool list \<Rightarrow> bool list
     \<Rightarrow> int \<Rightarrow> int \<Rightarrow> int \<Rightarrow> int \<Rightarrow> int \<Rightarrow> lake_state \<Rightarrow> (error + lake_state) option" where
  "raise_loop 0 area_map surf_z water_vol_balance_terms neighbors closednodes drainingnodes
       nnodes pit_nghb_code spill_code cpit cnode s = None"
| "raise_loop (Suc fuel) area_map surf_z water_vol_balance_terms neighbors closednodes
       drainingnodes nnodes pit_nghb_code spill_code cpit cnode s =
     (case loop_body area_map surf_z water_vol_balance_terms neighbors closednodes
             drainingnodes nnodes pit_nghb_code spill_code cpit cnode s of
        Inl e \<Rightarrow> Some (Inl e)
      | Inr (Break s') \<Rightarrow> Some (Inr s')
      | Inr (Continue cpit' cnode' tobreak s') \<Rightarrow>
          if tobreak then Some (Inr s')
          else raise_loop fuel area_map surf_z water_vol_balance_terms neighbors closednodes
                 drainingnodes nnodes pit_nghb_code spill_code cpit' cnode' s')"

text \<open>
  \<open>_raise_lake_to_limit\<close>. The codes \<open>pit_nghb_code\<close> and \<open>spill_code\<close> are
  computed once, from the lake the call was made for.
\<close>

definition raise_lake_to_limit ::
  "nat \<Rightarrow> int \<Rightarrow> real list \<Rightarrow> real list \<Rightarrow> coef \<times> coef \<Rightarrow> int list list \<Rightarrow> bool list
     \<Rightarrow> bool list \<Rightarrow> lake_state \<Rightarrow> (error + lake_state) option" where
  "raise_lake_to_limit fuel current_pit area_map init_water_surface water_vol_balance_terms
       neighbors closednodes drainingnodes s =
     (case lake_spill_node s current_pit of
        None \<Rightarrow> Some (Inl KeyError)
      | Some spill \<Rightarrow>
          if spill \<noteq> -1 then Some (Inr s)
          else
            let nnodes = int (length init_water_surface);
                pit_nghb_code = current_pit + nnodes;
                spill_code = pit_nghb_code + nnodes;
                s1 = s\<lparr>lake_is_full := (lake_is_full s)(current_pit \<mapsto> False)\<rparr>
            in case lake_q_dict s1 current_pit of
                 None \<Rightarrow> Some (Inl KeyError)
               | Some q \<Rightarrow>
                   (case pop_task q of
                      Inl e \<Rightarrow> Some (Inl e)
                    | Inr popped \<Rightarrow>
                        raise_loop fuel area_map init_water_surface water_vol_balance_terms
                          neighbors closednodes drainingnodes nnodes pit_nghb_code spill_code
                          current_pit (fst popped)
                          (s1\<lparr>lake_q_dict := (lake_q_dict s1)(current_pit \<mapsto> snd popped)\<rparr>)))"

subsection \<open>The public entry point\<close>

text \<open>
  \<open>fill_depression_from_pit_discharges\<close> builds local arrays and dicts and
  returns \<open>None\<close>. To say what it has built, the model returns the local
  variables as they are when the function returns. Of the grid \<open>mg\<close> it uses
  \<open>mg.zeros('node', ...)\<close>, an array with one entry per node, and
  \<open>mg.cell_area_at_node\<close>. The parameters \<open>depression_outlet\<close>,
  \<open>depression_nodes\<close>, \<open>surface_z\<close>, \<open>water_vol_balance_terms\<close> and
  \<open>neighbors_at_nodes\<close> are never read and are left out.
\<close>

record grid =
  number_of_nodes :: nat
  cell_area_at_node :: "real list"

record fill_locals =
  loc_disch_map :: "real list"
  loc_lake_map :: "int list"
  loc_area_map :: "real list"
  loc_vol_rem_at_pit :: "int \<rightharpoonup> real"
  loc_accum_area_at_pit :: "int \<rightharpoonup> real"
  loc_lake_water_level :: "int \<rightharpoonup> real"
  loc_lake_water_volume_balance :: "int \<rightharpoonup> real"
  loc_accum_Ks_at_pit :: "int \<rightharpoonup> real"
  loc_lake_is_full :: "int \<rightharpoonup> bool"

text \<open>Indexing an array with an array of indices: \<open>xs[idx]\<close>.\<close>

fun np_take :: "'a list \<Rightarrow> int list \<Rightarrow> error + 'a list" where
  "np_take xs [] = Inr []"
| "np_take xs (i # idx) =
     (case np_get xs i of
        Inl e \<Rightarrow> Inl e
      | Inr x \<Rightarrow> (case np_take xs idx of Inl e \<Rightarrow> Inl e | Inr r \<Rightarrow> Inr (x # r)))"

text \<open>
  \<open>np.argsort\<close>: the positions of the array in ascending order of their values.
  Equal values are kept in their order here; NumPy's default sort does not
  promise that.
\<close>

definition argsort :: "real list \<Rightarrow> int list" where
  "argsort xs = map int (sort_key (\<lambda>i. xs ! i) [0..<length xs])"

text \<open>The body of the \<open>for pit, vol, A, level in zip(...)\<close> loop.\<close>

definition register_pit :: "int \<times> real \<times> real \<times> real \<Rightarrow> fill_locals \<Rightarrow> fill_locals" where
  "register_pit e l =
     (let pit = fst e; vol = fst (snd e); A = fst (snd (snd e)); level = snd (snd (snd e))
      in l\<lparr>loc_vol_rem_at_pit := (loc_vol_rem_at_pit l)(pit \<mapsto> vol),
           loc_accum_area_at_pit := (loc_accum_area_at_pit l)(pit \<mapsto> A),
           loc_lake_water_level := (loc_lake_water_level l)(pit \<mapsto> level),
           loc_lake_is_full := (loc_lake_is_full l)(pit \<mapsto> False),
           loc_lake_water_volume_balance := (loc_lake_water_volume_balance l)(pit \<mapsto> 0),
           loc_accum_Ks_at_pit := (loc_accum_Ks_at_pit l)(pit \<mapsto> 0)\<rparr>)"

definition fill_depression_from_pit_discharges ::
  "grid \<Rightarrow> int list \<Rightarrow> real list \<Rightarrow> real list \<Rightarrow> error + fill_locals" where
  "fill_depression_from_pit_discharges mg pit_nodes Vw_at_pits water_z =
     (let area_map = cell_area_at_node mg in
      bind_err (np_take water_z pit_nodes) (\<lambda>zsurf_pit_nodes.
      let pit_node_sort = argsort zsurf_pit_nodes in
      bind_err (np_take water_z pit_node_sort) (\<lambda>zwater_nodes_in_order.
      bind_err (np_take pit_nodes pit_node_sort) (\<lambda>pit_nodes_in_order.
      bind_err (np_take Vw_at_pits pit_node_sort) (\<lambda>Vw_at_pits_in_order.
      bind_err (np_take area_map pit_node_sort) (\<lambda>areas_in_order.
      Inr (fold register_pit
             (zip pit_nodes_in_order
                (zip Vw_at_pits_in_order (zip areas_in_order zwater_nodes_in_order)))
             \<lparr>loc_disch_map = replicate (number_of_nodes mg) 0,
              loc_lake_map = replicate (number_of_nodes mg) (-1),
              loc_area_map = area_map,
              loc_vol_rem_at_pit = Map.empty,
              loc_accum_area_at_pit = Map.empty,
              loc_lake_water_level = Map.empty,
              loc_lake_water_volume_balance = Map.empty,
              loc_accum_Ks_at_pit = Map.empty,
              loc_lake_is_full = Map.empty\<rparr>)))))))"

section \<open>Quantities the properties speak of\<close>

text \<open>
  These definitions are not functions of the source. They name what the
  properties below are about.

  A term of the volume balance is zero when its float is zero or every entry
  of its array is.
\<close>

fun zero_coef :: "coef \<Rightarrow> bool" where
  "zero_coef (Scalar c) = (c = 0)"
| "zero_coef (PerNode cs) = list_all (\<lambda>c. c = 0) cs"

text \<open>
  The volume one raise step stores in lake \<open>cpit\<close>: the lake's accumulated area
  after the step times the change of its water level over the step.
\<close>

definition stored_increment :: "int \<Rightarrow> lake_state \<Rightarrow> lake_state \<Rightarrow> real" where
  "stored_increment cpit s s' =
     (case (accum_area_at_pit s' cpit, lake_water_level s cpit, lake_water_level s' cpit) of
        (Some A, Some l, Some l') \<Rightarrow> A * (l' - l)
      | _ \<Rightarrow> 0)"

text \<open>
  A sequence of raise steps of one lake, each given by its current node and
  its next node, with the volume the steps store summed up. A step that
  raises ends the sequence with its error.
\<close>

fun raise_calls ::
  "int \<Rightarrow> real list \<Rightarrow> real list \<Rightarrow> coef \<times> coef \<Rightarrow> int \<Rightarrow> (int \<times> int) list \<Rightarrow> lake_state
     \<Rightarrow> error + (real \<times> lake_state)" where
  "raise_calls cpit area_map surf_z wvbt nnodes [] s = Inr (0, s)"
| "raise_calls cpit area_map surf_z wvbt nnodes (p # ps) s =
     (case raise_step cpit (fst p) (snd p) area_map surf_z wvbt nnodes s of
        Inl e \<Rightarrow> Inl e
      | Inr r \<Rightarrow>
          (case raise_calls cpit area_map surf_z wvbt nnodes ps (snd r) of
             Inl e \<Rightarrow> Inl e
           | Inr t \<Rightarrow> Inr (stored_increment cpit s (snd r) + fst t, snd t)))"

text \<open>
  The water standing on the nodes of lake \<open>cpit\<close>: over every node that
  \<open>lake_map\<close> gives to the lake, the cell area times the depth of the lake's
  level above the node's surface.
\<close>

definition inundated_volume :: "int \<Rightarrow> real list \<Rightarrow> real list \<Rightarrow> lake_state \<Rightarrow> real" where
  "inundated_volume cpit area_map surf_z s =
     (case lake_water_level s cpit of
        None \<Rightarrow> 0
      | Some level \<Rightarrow>
          sum_list (map (\<lambda>n. if lake_map s ! n = cpit
                              then area_map ! n * (level - surf_z ! n) else 0)
                        [0..<length (lake_map s)]))"


section \<open>Concrete inputs\<close>

subsection \<open>The evaluator's docstring example\<close>

text \<open>
  The arguments of the third call in the docstring of \<open>_raise_water_level\<close>
  (node 6, increment 1, terms \<open>(-34., -3.)\<close>, first contact), as the two calls
  before it leave them, and the arguments as that call leaves them.
\<close>

definition doctest_area_map :: "real list" where
  "doctest_area_map = [2, 2, 2, 4, 3, 2, 1, 2, 2]"

definition doctest_state :: lake_state where
  "doctest_state =
     \<lparr>lake_map = [-1, -1, -1, 5, 5, 5, -1, -1, -1],
      master_pit_q = [],
      lake_q_dict = Map.empty,
      lake_water_level = Map.empty,
      accum_area_at_pit = [5 \<mapsto> 9],
      vol_rem_at_pit = [5 \<mapsto> 33],
      accum_Ks_at_pit = [5 \<mapsto> 0],
      lake_is_full = Map.empty,
      lake_spill_node = [5 \<mapsto> 8]\<rparr>"

definition doctest_state_after :: lake_state where
  "doctest_state_after =
     \<lparr>lake_map = [-1, -1, -1, 5, 5, 5, 5, -1, -1],
      master_pit_q = [],
      lake_q_dict = Map.empty,
      lake_water_level = Map.empty,
      accum_area_at_pit = [5 \<mapsto> 10],
      vol_rem_at_pit = [5 \<mapsto> -1],
      accum_Ks_at_pit = [5 \<mapsto> 0],
      lake_is_full = Map.empty,
      lake_spill_node = [5 \<mapsto> -1]\<rparr>"

text \<open>
  The arguments of the fifth call of that docstring (node 2, increment 10,
  per-node terms \<open>(np.arange(9), np.ones(9))\<close>, first contact).
\<close>

definition doctest_state5 :: lake_state where
  "doctest_state5 =
     \<lparr>lake_map = [-1, -1, -1, 5, 5, 5, 5, -1, -1],
      master_pit_q = [],
      lake_q_dict = Map.empty,
      lake_water_level = Map.empty,
      accum_area_at_pit = [5 \<mapsto> 10],
      vol_rem_at_pit = [5 \<mapsto> 61],
      accum_Ks_at_pit = [5 \<mapsto> -3],
      lake_is_full = Map.empty,
      lake_spill_node = [5 \<mapsto> 8]\<rparr>"

definition doctest_terms5 :: "coef \<times> coef" where
  "doctest_terms5 = (PerNode [0, 1, 2, 3, 4, 5, 6, 7, 8], PerNode [1, 1, 1, 1, 1, 1, 1, 1, 1])"

text \<open>The same arguments after the first-contact updates, and as the call leaves them.\<close>

definition doctest_state5_contact :: lake_state where
  "doctest_state5_contact =
     \<lparr>lake_map = [-1, -1, 5, 5, 5, 5, 5, -1, -1],
      master_pit_q = [],
      lake_q_dict = Map.empty,
      lake_water_level = Map.empty,
      accum_area_at_pit = [5 \<mapsto> 12],
      vol_rem_at_pit = [5 \<mapsto> 65],
      accum_Ks_at_pit = [5 \<mapsto> -3],
      lake_is_full = Map.empty,
      lake_spill_node = [5 \<mapsto> 8]\<rparr>"

definition doctest_state5_after :: lake_state where
  "doctest_state5_after =
     \<lparr>lake_map = [-1, -1, 5, 5, 5, 5, 5, -1, -1],
      master_pit_q = [],
      lake_q_dict = Map.empty,
      lake_water_level = Map.empty,
      accum_area_at_pit = [5 \<mapsto> 12],
      vol_rem_at_pit = [5 \<mapsto> 0],
      accum_Ks_at_pit = [5 \<mapsto> -3],
      lake_is_full = Map.empty,
      lake_spill_node = [5 \<mapsto> -1]\<rparr>"

subsection \<open>The engine's docstring example\<close>

text \<open>
  The six by six grid of the docstring of \<open>_raise_lake_to_limit\<close>, with the
  neighbours of a raster grid in the order east, north, west, south and \<open>-1\<close>
  where there is none; the arguments before the first call, on lake 7, and the
  arguments after it.
\<close>

definition bowl_surface :: "real list" where
  "bowl_surface = [0, 0, 0, 0, 0, 0, 0, -9, -6, 0, -8, 0, 0, -8, -5, -6, -7, 0, 0, -7, 0, -7, 0, 0, 0, 0, 0, -8, -3, -1, 0, 0, 0, 0, -2, 0]"

definition bowl_area_map :: "real list" where
  "bowl_area_map = replicate 36 2"

definition bowl_neighbors :: "int list list" where
  "bowl_neighbors =
     [[1, 6, -1, -1],
      [2, 7, 0, -1],
      [3, 8, 1, -1],
      [4, 9, 2, -1],
      [5, 10, 3, -1],
      [-1, 11, 4, -1],
      [7, 12, -1, 0],
      [8, 13, 6, 1],
      [9, 14, 7, 2],
      [10, 15, 8, 3],
      [11, 16, 9, 4],
      [-1, 17, 10, 5],
      [13, 18, -1, 6],
      [14, 19, 12, 7],
      [15, 20, 13, 8],
      [16, 21, 14, 9],
      [17, 22, 15, 10],
      [-1, 23, 16, 11],
      [19, 24, -1, 12],
      [20, 25, 18, 13],
      [21, 26, 19, 14],
      [22, 27, 20, 15],
      [23, 28, 21, 16],
      [-1, 29, 22, 17],
      [25, 30, -1, 18],
      [26, 31, 24, 19],
      [27, 32, 25, 20],
      [28, 33, 26, 21],
      [29, 34, 27, 22],
      [-1, 35, 28, 23],
      [31, -1, -1, 24],
      [32, -1, 30, 25],
      [33, -1, 31, 26],
      [34, -1, 32, 27],
      [35, -1, 33, 28],
      [-1, -1, 34, 29]]"

definition bowl_closed :: "bool list" where
  "bowl_closed = [False, False, False, False, False, False, False, False, False, False, False, False, False, False, False, False, False, False, False, False, False, False, False, False, False, False, False, False, False, False, False, False, False, False, True, False]"

definition bowl_draining :: "bool list" where
  "bowl_draining = [False, False, False, False, False, False, False, False, False, False, False, False, False, False, False, False, False, False, False, False, False, False, False, False, False, False, False, False, False, True, False, False, False, False, False, False]"

definition bowl_state0 :: lake_state where
  "bowl_state0 =
     \<lparr>lake_map = [-1, 43, -1, -1, -1, -1, 43, -1, 43, -1, -1, -1, -1, 43, -1, -1, -1, -1, -1, -1, -1, -1, -1, -1, -1, -1, -1, -1, -1, -1, -1, -1, -1, -1, -1, -1],
      master_pit_q = [],
      lake_q_dict = [7 \<mapsto> [(-9, 7), (-6, 8), (-8, 13), (0, 6), (0, 1)], 10 \<mapsto> [(-8, 10)],
                     27 \<mapsto> [(-8, 27)]],
      lake_water_level = [7 \<mapsto> -9, 10 \<mapsto> -8, 27 \<mapsto> -8],
      accum_area_at_pit = [7 \<mapsto> 0, 10 \<mapsto> 0, 27 \<mapsto> 0],
      vol_rem_at_pit = [7 \<mapsto> 100, 10 \<mapsto> 4, 27 \<mapsto> 100],
      accum_Ks_at_pit = [7 \<mapsto> 0, 10 \<mapsto> 0, 27 \<mapsto> 0],
      lake_is_full = [7 \<mapsto> False, 10 \<mapsto> False, 27 \<mapsto> False],
      lake_spill_node = [7 \<mapsto> -1, 10 \<mapsto> -1, 27 \<mapsto> -1]\<rparr>"

definition bowl_state1 :: lake_state where
  "bowl_state1 =
     \<lparr>lake_map = [-1, 43, 43, -1, -1, -1, 43, 7, 7, 43, -1, -1, 43, 7, 79, -1, -1, -1, 43, 7, 43, -1, -1, -1, -1, 43, -1, -1, -1, -1, -1, -1, -1, -1, -1, -1],
      master_pit_q = [(-5, 7)],
      lake_q_dict = [7 \<mapsto> [(0, 6), (0, 1), (0, 12), (0, 20), (0, 25), (0, 18), (0, 9), (0, 2)],
                     10 \<mapsto> [(-8, 10)], 27 \<mapsto> [(-8, 27)]],
      lake_water_level = [7 \<mapsto> -5, 10 \<mapsto> -8, 27 \<mapsto> -8],
      accum_area_at_pit = [7 \<mapsto> 8, 10 \<mapsto> 0, 27 \<mapsto> 0],
      vol_rem_at_pit = [7 \<mapsto> 80, 10 \<mapsto> 4, 27 \<mapsto> 100],
      accum_Ks_at_pit = [7 \<mapsto> 0, 10 \<mapsto> 0, 27 \<mapsto> 0],
      lake_is_full = [7 \<mapsto> False, 10 \<mapsto> False, 27 \<mapsto> False],
      lake_spill_node = [7 \<mapsto> 14, 10 \<mapsto> -1, 27 \<mapsto> -1]\<rparr>"

subsection \<open>Two lakes below one draining node\<close>

text \<open>
  Four nodes in a row: pits 0 and 2 at elevation 0 on either side of the
  draining node 1 at elevation 1, and node 3 at elevation 2 behind pit 2. Each
  lake's queue holds its pit and the pit's neighbours, and the neighbours carry
  the candidate code in \<open>lake_map\<close>, as the docstring of
  \<open>_raise_lake_to_limit\<close> prepares them. Lake 0 has volume 1, lake 2 volume 2.
\<close>

definition outlet_area_map :: "real list" where
  "outlet_area_map = [1, 1, 1, 1]"

definition outlet_surface :: "real list" where
  "outlet_surface = [0, 1, 0, 2]"

definition outlet_neighbors :: "int list list" where
  "outlet_neighbors = [[1], [0, 2], [1, 3], [2]]"

definition outlet_closed :: "bool list" where
  "outlet_closed = [False, False, False, False]"

definition outlet_draining :: "bool list" where
  "outlet_draining = [False, True, False, False]"

definition outlet_state0 :: lake_state where
  "outlet_state0 =
     \<lparr>lake_map = [-1, 6, -1, 6],
      master_pit_q = [],
      lake_q_dict = [0 \<mapsto> [(0, 0), (1, 1)], 2 \<mapsto> [(0, 2), (1, 1), (2, 3)]],
      lake_water_level = [0 \<mapsto> 0, 2 \<mapsto> 0],
      accum_area_at_pit = [0 \<mapsto> 0, 2 \<mapsto> 0],
      vol_rem_at_pit = [0 \<mapsto> 1, 2 \<mapsto> 2],
      accum_Ks_at_pit = [0 \<mapsto> 0, 2 \<mapsto> 0],
      lake_is_full = [0 \<mapsto> False, 2 \<mapsto> False],
      lake_spill_node = [0 \<mapsto> -1, 2 \<mapsto> -1]\<rparr>"

text \<open>After the engine has run on lake 0: it has reached node 1 and spills there.\<close>

definition outlet_state1 :: lake_state where
  "outlet_state1 =
     \<lparr>lake_map = [0, 8, -1, 6],
      master_pit_q = [],
      lake_q_dict = [0 \<mapsto> [], 2 \<mapsto> [(0, 2), (1, 1), (2, 3)]],
      lake_water_level = [0 \<mapsto> 1, 2 \<mapsto> 0],
      accum_area_at_pit = [0 \<mapsto> 1, 2 \<mapsto> 0],
      vol_rem_at_pit = [0 \<mapsto> 0, 2 \<mapsto> 2],
      accum_Ks_at_pit = [0 \<mapsto> 0, 2 \<mapsto> 0],
      lake_is_full = [0 \<mapsto> False, 2 \<mapsto> False],
      lake_spill_node = [0 \<mapsto> 1, 2 \<mapsto> -1]\<rparr>"

text \<open>After the engine has then run on lake 2.\<close>

definition outlet_state2 :: lake_state where
  "outlet_state2 =
     \<lparr>lake_map = [0, 0, 0, 6],
      master_pit_q = [],
      lake_q_dict = [0 \<mapsto> [(2, 3), (3 / 2, 1)]],
      lake_water_level = [0 \<mapsto> 3 / 2],
      accum_area_at_pit = [0 \<mapsto> 2],
      vol_rem_at_pit = [0 \<mapsto> 0],
      accum_Ks_at_pit = [0 \<mapsto> 0],
      lake_is_full = [0 \<mapsto> True],
      lake_spill_node = [0 \<mapsto> -1]\<rparr>"

subsection \<open>One lake with a constant loss\<close>








subsection \<open>Two lakes about to merge\<close>

text \<open>
  The arguments of the run on lake 2 above at the moment it calls
  \<open>_merge_two_lakes\<close>: both lakes stand at level 1. In the second state the
  level of lake 2 is \<open>1.000001\<close> instead.
\<close>

definition outlet_merge_state :: lake_state where
  "outlet_merge_state =
     \<lparr>lake_map = [0, 8, 2, 6],
      master_pit_q = [],
      lake_q_dict = [0 \<mapsto> [], 2 \<mapsto> [(2, 3)]],
      lake_water_level = [0 \<mapsto> 1, 2 \<mapsto> 1],
      accum_area_at_pit = [0 \<mapsto> 1, 2 \<mapsto> 1],
      vol_rem_at_pit = [0 \<mapsto> 0, 2 \<mapsto> 1],
      accum_Ks_at_pit = [0 \<mapsto> 0, 2 \<mapsto> 0],
      lake_is_full = [0 \<mapsto> False, 2 \<mapsto> False],
      lake_spill_node = [0 \<mapsto> 1, 2 \<mapsto> -1]\<rparr>"

definition outlet_close_state :: lake_state where
  "outlet_close_state =
     outlet_merge_state\<lparr>lake_water_level := [0 \<mapsto> 1, 2 \<mapsto> 1000001 / 1000000]\<rparr>"

subsection \<open>Two lakes either side of a sill\<close>

text \<open>
  Four nodes in a row at elevations 0, 2, 1 and 5, unit areas, no loss terms, no
  closed and no draining node. Pit 0 and pit 2 lie either side of node 1, the
  sill; each lake has volume 2 and a queue prepared as in the docstring of
  \<open>_raise_lake_to_limit\<close>. The states after the engine has run on lake 0, and
  after it has then run on lake 2, follow.
\<close>

definition sill_area_map :: "real list" where
  "sill_area_map = [1, 1, 1, 1]"

definition sill_surface :: "real list" where
  "sill_surface = [0, 2, 1, 5]"

definition sill_neighbors :: "int list list" where
  "sill_neighbors = [[1], [0, 2], [1, 3], [2]]"

definition sill_flags :: "bool list" where
  "sill_flags = [False, False, False, False]"

definition sill_state0 :: lake_state where
  "sill_state0 =
     \<lparr>lake_map = [-1, 6, -1, 6],
      master_pit_q = [],
      lake_q_dict = [0 \<mapsto> [(0, 0), (2, 1)], 2 \<mapsto> [(1, 2), (2, 1), (5, 3)]],
      lake_water_level = [0 \<mapsto> 0, 2 \<mapsto> 1],
      accum_area_at_pit = [0 \<mapsto> 0, 2 \<mapsto> 0],
      vol_rem_at_pit = [0 \<mapsto> 2, 2 \<mapsto> 2],
      accum_Ks_at_pit = [0 \<mapsto> 0, 2 \<mapsto> 0],
      lake_is_full = [0 \<mapsto> False, 2 \<mapsto> False],
      lake_spill_node = [0 \<mapsto> -1, 2 \<mapsto> -1]\<rparr>"

definition sill_state1 :: lake_state where
  "sill_state1 =
     \<lparr>lake_map = [0, 8, -1, 6],
      master_pit_q = [(2, 0)],
      lake_q_dict = [0 \<mapsto> [], 2 \<mapsto> [(1, 2), (2, 1), (5, 3)]],
      lake_water_level = [0 \<mapsto> 2, 2 \<mapsto> 1],
      accum_area_at_pit = [0 \<mapsto> 1, 2 \<mapsto> 0],
      vol_rem_at_pit = [0 \<mapsto> 0, 2 \<mapsto> 2],
      accum_Ks_at_pit = [0 \<mapsto> 0, 2 \<mapsto> 0],
      lake_is_full = [0 \<mapsto> False, 2 \<mapsto> False],
      lake_spill_node = [0 \<mapsto> 1, 2 \<mapsto> -1]\<rparr>"

definition sill_state2 :: lake_state where
  "sill_state2 =
     \<lparr>lake_map = [0, 0, 0, 6],
      master_pit_q = [(2, 0)],
      lake_q_dict = [0 \<mapsto> [(5, 3), (5 / 2, 1)]],
      lake_water_level = [0 \<mapsto> 5 / 2],
      accum_area_at_pit = [0 \<mapsto> 2],
      vol_rem_at_pit = [0 \<mapsto> 0],
      accum_Ks_at_pit = [0 \<mapsto> 0],
      lake_is_full = [0 \<mapsto> True],
      lake_spill_node = [0 \<mapsto> -1]\<rparr>"

subsection \<open>One pit for the entry point\<close>

text \<open>
  A grid of three nodes with cell areas 1, 2 and 3, and the local variables
  \<open>fill_depression_from_pit_discharges\<close> has built when it is called with the
  single pit 2, volume 10 and water surface \<open>[5, 6, 7]\<close>.
\<close>

definition pit_grid :: grid where
  "pit_grid = \<lparr>number_of_nodes = 3, cell_area_at_node = [1, 2, 3]\<rparr>"

definition pit_locals :: fill_locals where
  "pit_locals =
     \<lparr>loc_disch_map = [0, 0, 0],
      loc_lake_map = [-1, -1, -1],
      loc_area_map = [1, 2, 3],
      loc_vol_rem_at_pit = [2 \<mapsto> 10],
      loc_accum_area_at_pit = [2 \<mapsto> 1],
      loc_lake_water_level = [2 \<mapsto> 5],
      loc_lake_water_volume_balance = [2 \<mapsto> 0],
      loc_accum_Ks_at_pit = [2 \<mapsto> 0],
      loc_lake_is_full = [2 \<mapsto> False]\<rparr>"

section \<open>Properties of the node fill evaluator\<close>

lemmas eval_defs = bind_err_def np_index_def np_get_def np_set_def dict_get_def
  get_float_water_vol_balance_terms_def first_contact_def fill_decision_def
  raise_water_level_def

lemmas doctest_defs = doctest_area_map_def doctest_state_def doctest_state_after_def
  doctest_state5_def doctest_terms5_def doctest_state5_contact_def doctest_state5_after_def


lemma doctest_call5_contact:
  "first_contact 5 2 doctest_area_map 10 doctest_terms5 True doctest_state5
     = Inr (120, 2, doctest_state5_contact)"
  by (simp add: eval_defs doctest_defs)


text \<open>
  The volume handed to the fill decision is the requested increment times the
  lake's area after the first-contact update.
\<close>

lemma first_contact_volume:
  assumes "first_contact cpit cnode area_map z wvbt flood s = Inr (V0, K, s1)"
  shows "\<exists>A. accum_area_at_pit s1 cpit = Some A \<and> V0 = z * A"
  using assms
  by (auto simp: first_contact_def bind_err_def dict_get_def
           split: sum.splits option.splits if_splits)

text \<open>
  C1, as amended. Take a call whose first-contact updates succeed, leaving
  remaining volume \<open>v\<close>, lake area \<open>A\<close> and accumulated coefficient \<open>Ks\<close>, and
  let \<open>V0 - (K + Ks) * z\<close> be the volume required for the whole increment
  \<open>z\<close>. If \<open>v\<close> is strictly less than that volume, the call does not leave
  through the first-contact return (\<open>flood_from_zero\<close> with \<open>v < 0\<close>) and the
  required volume is not zero, then the call reports failure, the increment it
  returns is \<open>v\<close> divided by the volume required per unit depth,
  \<open>A - (K + Ks)\<close>, the stored remaining volume is zero and the spill
  designation is \<open>-1\<close>.
\<close>

theorem partial_fill:
  assumes fc: "first_contact cpit cnode area_map z wvbt flood s = Inr (V0, K, s1)"
    and Ks: "accum_Ks_at_pit s1 cpit = Some Ks"
    and v: "vol_rem_at_pit s1 cpit = Some v"
    and A: "accum_area_at_pit s1 cpit = Some A"
    and insufficient: "v < V0 - (K + Ks) * z"
    and no_early: "\<not> (flood \<and> v < 0)"
    and nonzero: "V0 - (K + Ks) * z \<noteq> 0"
  shows "\<exists>s'. raise_water_level cpit cnode area_map z wvbt flood s
            = Inr ((False, v / (A - (K + Ks))), s')
          \<and> v / (A - (K + Ks)) = v / ((V0 - (K + Ks) * z) / z)
          \<and> vol_rem_at_pit s' cpit = Some 0
          \<and> lake_spill_node s' cpit = Some (-1)"
proof -
  from first_contact_volume[OF fc] A have V0: "V0 = z * A" by simp
  have V: "V0 - (K + Ks) * z = z * (A - (K + Ks))" by (simp add: V0 algebra_simps)
  with nonzero have z: "z \<noteq> 0" by auto
  have "\<And>u::real. v / (z * u) * z = v / u" using z by simp
  then have q: "v / (V0 - (K + Ks) * z) * z = v / (A - (K + Ks))"
    unfolding V .
  have q2: "v / (A - (K + Ks)) = v / ((V0 - (K + Ks) * z) / z)"
    unfolding V using z by simp
  show ?thesis
    using fc Ks v insufficient no_early nonzero q q2
    by (auto simp: raise_water_level_def fill_decision_def bind_err_def dict_get_def Let_def)
qed

theorem partial_fill_witness:
  "\<exists>s'. raise_water_level 5 2 doctest_area_map 10 doctest_terms5 True doctest_state5
            = Inr ((False, 5), s')
        \<and> vol_rem_at_pit s' 5 = Some 0 \<and> lake_spill_node s' 5 = Some (-1)"
proof -
  have Ks: "accum_Ks_at_pit doctest_state5_contact 5 = Some (-3)"
    and v: "vol_rem_at_pit doctest_state5_contact 5 = Some 65"
    and A: "accum_area_at_pit doctest_state5_contact 5 = Some 12"
    by (simp_all add: doctest_state5_contact_def)
  have "\<exists>s'. raise_water_level 5 2 doctest_area_map 10 doctest_terms5 True doctest_state5
            = Inr ((False, 65 / (12 - (2 + -3))), s')
          \<and> 65 / (12 - (2 + -3)) = 65 / ((120 - (2 + -3) * 10) / (10::real))
          \<and> vol_rem_at_pit s' 5 = Some 0
          \<and> lake_spill_node s' 5 = Some (-1)"
    by (rule partial_fill[OF doctest_call5_contact Ks v A]) simp_all
  then show ?thesis by simp
qed

text \<open>
  The claim as stated fails at the third call of the docstring: after the
  first-contact updates the remaining volume is \<open>-1\<close>, less than the required
  \<open>1 * 10 - (-3 + 0) * 1 = 13\<close>, yet the call returns depth \<open>0\<close>, not
  \<open>-1 / 13\<close>, and the stored remaining volume is \<open>-1\<close>, not zero.
\<close>

theorem partial_fill_counterexample:
  "first_contact 5 6 doctest_area_map 1 (Scalar (-34), Scalar (-3)) True doctest_state
     = Inr (1 * 10, -3, doctest_state_after\<lparr>lake_spill_node := [5 \<mapsto> 8]\<rparr>)
   \<and> vol_rem_at_pit (doctest_state_after\<lparr>lake_spill_node := [5 \<mapsto> 8]\<rparr>) 5 = Some (-1)
   \<and> accum_Ks_at_pit (doctest_state_after\<lparr>lake_spill_node := [5 \<mapsto> 8]\<rparr>) 5 = Some 0
   \<and> (-1 :: real) < 1 * 10 - (-3 + 0) * 1
   \<and> raise_water_level 5 6 doctest_area_map 1 (Scalar (-34), Scalar (-3)) True doctest_state
       = Inr ((False, 0), doctest_state_after)
   \<and> (0 :: real) \<noteq> -1 / (10 - (-3 + 0))
   \<and> vol_rem_at_pit doctest_state_after 5 = Some (-1)
   \<and> vol_rem_at_pit doctest_state_after 5 \<noteq> Some 0"
  by (simp add: eval_defs doctest_defs)




text \<open>
  C9. The quotient is formed only under the test \<open>v < V_increment_to_fill\<close>. If
  the remaining volume \<open>v\<close> is non-negative when that test runs, the call never
  fails with a division by zero, and a divisor reached under the test is
  strictly positive. Without that: from the arguments the third docstring call
  leaves (remaining volume \<open>-1\<close>), a continued fill with increment \<open>0\<close> divides
  by zero, and one with increment \<open>-1/20\<close> divides by \<open>-13/20\<close>, returning
  \<open>(-1) / (-13/20) * (-1/20) = -1/13\<close>.
\<close>

theorem division_safety:
  assumes fc: "first_contact cpit cnode area_map z wvbt flood s = Inr (V0, K, s1)"
    and v: "vol_rem_at_pit s1 cpit = Some v"
    and nonneg: "0 \<le> v"
  shows "raise_water_level cpit cnode area_map z wvbt flood s \<noteq> Inl ZeroDivisionError
       \<and> (\<forall>Ks. accum_Ks_at_pit s1 cpit = Some Ks \<longrightarrow> v < V0 - (K + Ks) * z
              \<longrightarrow> 0 < V0 - (K + Ks) * z)
       \<and> raise_water_level 5 6 doctest_area_map 0 (Scalar (-34), Scalar (-3)) False
            doctest_state_after = Inl ZeroDivisionError
       \<and> map_sum id fst (raise_water_level 5 6 doctest_area_map (-1/20)
            (Scalar (-34), Scalar (-3)) False doctest_state_after) = Inr (False, -1/13)"
proof -
  have a: "raise_water_level cpit cnode area_map z wvbt flood s \<noteq> Inl ZeroDivisionError"
    using fc v nonneg
    by (auto simp: raise_water_level_def fill_decision_def bind_err_def dict_get_def Let_def
             split: option.splits)
  have b: "\<forall>Ks. accum_Ks_at_pit s1 cpit = Some Ks \<longrightarrow> v < V0 - (K + Ks) * z
              \<longrightarrow> 0 < V0 - (K + Ks) * z"
    using nonneg by auto
  have c: "raise_water_level 5 6 doctest_area_map 0 (Scalar (-34), Scalar (-3)) False
            doctest_state_after = Inl ZeroDivisionError"
    by (simp add: eval_defs doctest_defs)
  have d: "map_sum id fst (raise_water_level 5 6 doctest_area_map (-1/20)
            (Scalar (-34), Scalar (-3)) False doctest_state_after) = Inr (False, -1/13)"
    by (simp add: eval_defs doctest_defs)
  from a b c d show ?thesis by blast
qed

theorem division_safety_witness:
  "vol_rem_at_pit doctest_state5_contact 5 = Some 65 \<and> (0 :: real) \<le> 65
   \<and> raise_water_level 5 2 doctest_area_map 10 doctest_terms5 True doctest_state5
       \<noteq> Inl ZeroDivisionError"
proof -
  have v: "vol_rem_at_pit doctest_state5_contact 5 = Some 65"
    by (simp add: doctest_state5_contact_def)
  have nonneg: "(0 :: real) \<le> 65" by simp
  from division_safety[OF doctest_call5_contact v nonneg] v show ?thesis by simp
qed

section \<open>Properties of a raise step\<close>



lemma first_contact_level:
  assumes "first_contact cpit cnode area_map z wvbt flood s = Inr (V0, K, s1)"
  shows "lake_water_level s1 = lake_water_level s"
  using assms by (auto simp: first_contact_def bind_err_def split: sum.splits if_splits)

lemma fill_decision_level:
  assumes "fill_decision cpit z V0 K s1 = Inr (r, s')"
  shows "lake_water_level s' = lake_water_level s1"
  using assms
  by (auto simp: fill_decision_def bind_err_def dict_get_def Let_def
           split: option.splits if_splits)

text \<open>The evaluator does not touch the water levels: its caller applies the increment.\<close>

lemma raise_water_level_level:
  assumes "raise_water_level cpit cnode area_map z wvbt flood s = Inr (r, s')"
  shows "lake_water_level s' = lake_water_level s"
proof (cases "first_contact cpit cnode area_map z wvbt flood s")
  case (Inl e)
  with assms show ?thesis by (simp add: raise_water_level_def bind_err_def)
next
  case (Inr t)
  obtain V0 K s1 where t: "t = (V0, K, s1)" by (cases t) auto
  from Inr t have l1: "lake_water_level s1 = lake_water_level s" by (simp add: first_contact_level)
  from assms Inr t l1 show ?thesis
    by (auto simp: raise_water_level_def bind_err_def Let_def fill_decision_level
             split: if_splits)
qed


lemmas engine_defs = raise_lake_to_limit_def loop_body_def raise_step_def visit_neighbor_def
  merge_two_lakes_def merge_entry_def dict_pop_def isclose_def pop_task_def add_task_def
  merge_queues_def

lemmas outlet_defs = outlet_area_map_def outlet_surface_def outlet_neighbors_def
  outlet_closed_def outlet_draining_def outlet_state0_def outlet_state1_def outlet_state2_def
  outlet_merge_state_def outlet_close_state_def


lemmas sill_defs = sill_area_map_def sill_surface_def sill_neighbors_def sill_flags_def
  sill_state0_def sill_state1_def sill_state2_def




section \<open>Volume conservation\<close>

lemma np_get_zero:
  assumes "list_all (\<lambda>c. c = 0) cs" and "np_get cs i = Inr (v::real)"
  shows "v = 0"
proof -
  from assms(2) obtain j where "np_index cs i = Some j" and v: "v = cs ! j"
    by (auto simp: np_get_def split: option.splits)
  then have "j < length cs"
    by (auto simp: np_index_def Let_def split: if_splits)
  with assms(1) v show ?thesis by (simp add: list_all_length)
qed

lemma zero_terms:
  assumes "get_float_water_vol_balance_terms wvbt area_map node = Inr (c, K)"
    and "zero_coef (fst wvbt)" and "zero_coef (snd wvbt)"
  shows "c = 0 \<and> K = 0"
proof -
  from assms(1) obtain a c0 k0 where
    c0: "(case fst wvbt of PerNode cs \<Rightarrow> np_get cs node | Scalar c \<Rightarrow> Inr c) = Inr c0"
    and k0: "(case snd wvbt of PerNode ks \<Rightarrow> np_get ks node | Scalar k \<Rightarrow> Inr k) = Inr k0"
    and ck: "c = c0 * a" "K = k0 * a"
    by (auto simp: get_float_water_vol_balance_terms_def bind_err_def split: sum.splits)
  from c0 assms(2) have "c0 = 0"
    by (cases "fst wvbt") (auto dest: np_get_zero)
  moreover from k0 assms(3) have "k0 = 0"
    by (cases "snd wvbt") (auto dest: np_get_zero)
  ultimately show ?thesis using ck by simp
qed

lemma first_contact_zero_terms:
  assumes fc: "first_contact cpit cnode area_map z wvbt flood s = Inr (V0, K, s1)"
    and zero: "zero_coef (fst wvbt)" "zero_coef (snd wvbt)"
  shows "K = 0 \<and> vol_rem_at_pit s1 cpit = vol_rem_at_pit s cpit
       \<and> accum_Ks_at_pit s1 = accum_Ks_at_pit s"
proof -
  from fc obtain ck where
    gf: "get_float_water_vol_balance_terms wvbt area_map cnode = Inr ck" and K: "K = snd ck"
    by (auto simp: first_contact_def bind_err_def split: sum.splits)
  from zero_terms[of wvbt area_map cnode "fst ck" "snd ck"] gf zero
  have z: "fst ck = 0" "snd ck = 0" by simp_all
  from fc gf z K show ?thesis
    by (auto simp: first_contact_def bind_err_def dict_get_def
             split: sum.splits option.splits if_splits)
qed

lemma fill_decision_conserves:
  assumes fd: "fill_decision cpit z (z * A) 0 s1 = Inr ((filled, dz), s')"
    and Ks: "accum_Ks_at_pit s1 cpit = Some 0"
    and A: "accum_area_at_pit s1 cpit = Some A"
  shows "\<exists>v v'. vol_rem_at_pit s1 cpit = Some v \<and> vol_rem_at_pit s' cpit = Some v'
           \<and> A * dz = v - v' \<and> accum_Ks_at_pit s' cpit = Some 0
           \<and> accum_area_at_pit s' cpit = Some A"
proof -
  from fd obtain v where v: "vol_rem_at_pit s1 cpit = Some v"
    by (auto simp: fill_decision_def bind_err_def dict_get_def Let_def split: option.splits)
  show ?thesis
  proof (cases "v < z * A")
    case True
    with fd Ks v have nz: "z * A \<noteq> 0" and dz: "dz = v / (z * A) * z"
      and s': "vol_rem_at_pit s' cpit = Some 0" "accum_Ks_at_pit s' cpit = Some 0"
        "accum_area_at_pit s' = accum_area_at_pit s1"
      by (auto simp: fill_decision_def bind_err_def dict_get_def Let_def split: if_splits)
    from nz have "A * (v / (z * A) * z) = v" by simp
    with dz s' v A show ?thesis by simp
  next
    case False
    with fd Ks v have "dz = z" "vol_rem_at_pit s' cpit = Some (v - z * A)"
      "accum_Ks_at_pit s' cpit = Some 0" "accum_area_at_pit s' = accum_area_at_pit s1"
      by (auto simp: fill_decision_def bind_err_def dict_get_def Let_def split: if_splits)
    with v A have "vol_rem_at_pit s1 cpit = Some v \<and> vol_rem_at_pit s' cpit = Some (v - z * A)
           \<and> A * dz = v - (v - z * A) \<and> accum_Ks_at_pit s' cpit = Some 0
           \<and> accum_area_at_pit s' cpit = Some A"
      by simp
    then show ?thesis by blast
  qed
qed

text \<open>
  With both terms zero and nothing accumulated in \<open>accum_Ks_at_pit\<close>, a call
  of the evaluator that returns takes from the remaining volume exactly the
  lake's accumulated area times the increment it returns.
\<close>

lemma raise_water_level_conserves:
  assumes call: "raise_water_level cpit cnode area_map z wvbt flood s = Inr ((filled, dz), s')"
    and zero: "zero_coef (fst wvbt)" "zero_coef (snd wvbt)"
    and Ks: "accum_Ks_at_pit s cpit = Some 0"
  shows "\<exists>A v v'. accum_area_at_pit s' cpit = Some A \<and> vol_rem_at_pit s cpit = Some v
           \<and> vol_rem_at_pit s' cpit = Some v' \<and> A * dz = v - v'
           \<and> accum_Ks_at_pit s' cpit = Some 0"
proof (cases "first_contact cpit cnode area_map z wvbt flood s")
  case (Inl e)
  with call show ?thesis by (simp add: raise_water_level_def bind_err_def)
next
  case (Inr t)
  obtain V0 K s1 where t: "t = (V0, K, s1)" by (cases t) auto
  with Inr have fc: "first_contact cpit cnode area_map z wvbt flood s = Inr (V0, K, s1)" by simp
  from first_contact_volume[OF fc] obtain A where
    A: "accum_area_at_pit s1 cpit = Some A" and V0: "V0 = z * A" by blast
  from first_contact_zero_terms[OF fc zero] have K: "K = 0"
    and vol: "vol_rem_at_pit s1 cpit = vol_rem_at_pit s cpit"
    and Ks1: "accum_Ks_at_pit s1 cpit = Some 0" using Ks by simp_all
  show ?thesis
  proof (cases "flood \<and> (case vol_rem_at_pit s1 cpit of Some v \<Rightarrow> v < 0 | None \<Rightarrow> False)")
    case True
    with call fc A vol Ks1 show ?thesis
      by (auto simp: raise_water_level_def bind_err_def split: option.splits)
  next
    case False
    with call fc V0 K have fd: "fill_decision cpit z (z * A) 0 s1 = Inr ((filled, dz), s')"
      by (simp add: raise_water_level_def bind_err_def)
    from fill_decision_conserves[OF fd Ks1 A] vol show ?thesis by auto
  qed
qed

lemma raise_step_conserves:
  assumes step: "raise_step cpit cnode nnode area_map surf_z wvbt nnodes s = Inr (filled, s')"
    and zero: "zero_coef (fst wvbt)" "zero_coef (snd wvbt)"
    and Ks: "accum_Ks_at_pit s cpit = Some 0"
  shows "\<exists>v v'. vol_rem_at_pit s cpit = Some v \<and> vol_rem_at_pit s' cpit = Some v'
           \<and> stored_increment cpit s s' = v - v' \<and> accum_Ks_at_pit s' cpit = Some 0"
proof -
  from step obtain code z_next l dz s1 where
    l: "lake_water_level s cpit = Some l"
    and call: "raise_water_level cpit cnode area_map (z_next - l) wvbt
                 (code < 0 \<or> code \<ge> nnodes) s = Inr ((filled, dz), s1)"
    and s': "s' = s1\<lparr>lake_water_level := (lake_water_level s1)(cpit \<mapsto> l + dz)\<rparr>"
    by (auto simp: raise_step_def bind_err_def dict_get_def Let_def raise_water_level_level
             split: sum.splits option.splits)
  from raise_water_level_conserves[OF call zero Ks] obtain A v v' where
    "accum_area_at_pit s1 cpit = Some A" "vol_rem_at_pit s cpit = Some v"
    "vol_rem_at_pit s1 cpit = Some v'" "A * dz = v - v'" "accum_Ks_at_pit s1 cpit = Some 0"
    by blast
  with l s' show ?thesis by (simp add: stored_increment_def)
qed

text \<open>
  What the code conserves. Over any sequence of raise steps of one lake with
  both terms zero, the accumulated area times the level change, summed over
  the steps, is the volume the lake held at the start less the volume that
  remains.
\<close>

lemma raise_calls_conserve:
  assumes run: "raise_calls cpit area_map surf_z wvbt nnodes ps s = Inr (stored, s')"
    and zero: "zero_coef (fst wvbt)" "zero_coef (snd wvbt)"
    and Ks: "accum_Ks_at_pit s cpit = Some 0"
    and supplied: "vol_rem_at_pit s cpit = Some v"
  shows "\<exists>v'. vol_rem_at_pit s' cpit = Some v' \<and> stored = v - v'"
  using run Ks supplied
proof (induction ps arbitrary: s stored v)
  case Nil
  then show ?case by simp
next
  case (Cons p ps)
  from Cons.prems(1) obtain filled s1 t where
    step: "raise_step cpit (fst p) (snd p) area_map surf_z wvbt nnodes s = Inr (filled, s1)"
    and rest: "raise_calls cpit area_map surf_z wvbt nnodes ps s1 = Inr (t, s')"
    and stored: "stored = stored_increment cpit s s1 + t"
    by (auto split: sum.splits)
  from raise_step_conserves[OF step zero Cons.prems(2)] Cons.prems(3) obtain v1 where
    v1: "vol_rem_at_pit s1 cpit = Some v1" and inc: "stored_increment cpit s s1 = v - v1"
    and Ks1: "accum_Ks_at_pit s1 cpit = Some 0" by auto
  from Cons.IH[OF rest Ks1 v1] obtain v' where
    "vol_rem_at_pit s' cpit = Some v'" "t = v1 - v'" by blast
  with stored inc show ?case by simp
qed

lemma raise_calls_conserve_example:
  "\<exists>stored s' v'. raise_calls 2 outlet_area_map outlet_surface (Scalar 0, Scalar 0) 4
        [(2, 1), (1, 3)] outlet_state0 = Inr (stored, s')
      \<and> vol_rem_at_pit s' 2 = Some v' \<and> stored = 2 - v' \<and> stored = 2"
proof -
  obtain s' where run: "raise_calls 2 outlet_area_map outlet_surface (Scalar 0, Scalar 0) 4
        [(2, 1), (1, 3)] outlet_state0 = Inr (2, s')"
    by (simp add: eval_defs raise_step_def stored_increment_def outlet_defs)
  have zero: "zero_coef (fst (Scalar 0, Scalar 0))" "zero_coef (snd (Scalar 0, Scalar 0))"
    by simp_all
  have Ks: "accum_Ks_at_pit outlet_state0 2 = Some 0"
    and v: "vol_rem_at_pit outlet_state0 2 = Some 2"
    by (simp_all add: outlet_state0_def)
  from raise_calls_conserve[OF run zero Ks v] run show ?thesis by blast
qed

lemma sill_run_lake0:
  "raise_lake_to_limit (Suc (Suc 0)) 0 sill_area_map sill_surface (Scalar 0, Scalar 0)
     sill_neighbors sill_flags sill_flags sill_state0 = Some (Inr sill_state1)"
  by (simp add: eval_defs engine_defs sill_defs fun_eq_iff)

lemma sill_run_lake2:
  "raise_lake_to_limit (Suc (Suc (Suc 0))) 2 sill_area_map sill_surface (Scalar 0, Scalar 0)
     sill_neighbors sill_flags sill_flags sill_state1 = Some (Inr sill_state2)"
  by (simp add: eval_defs engine_defs sill_defs fun_eq_iff)

text \<open>
  C2 fails on the code when two lakes merge. In the sill example both terms
  are zero and each lake is given volume 2. The engine runs on lake 0, which
  stops at the sill, node 1; it then runs on lake 2, which reaches the sill,
  merges into lake 0 and spends what is left. Node 1 is given to the merged
  lake by the assignment after the merge, so it is never a fresh node and its
  area is never added to \<open>accum_area_at_pit\<close>, which stays at 2 for three
  flooded nodes. All of the supplied volume \<open>2 + 2\<close> is spent and none
  remains, while the water standing on the lake's nodes at its level \<open>5/2\<close>
  is \<open>5/2 + 1/2 + 3/2 = 9/2\<close>.
\<close>

theorem sill_area_lost:
  "raise_lake_to_limit (Suc (Suc 0)) 0 sill_area_map sill_surface (Scalar 0, Scalar 0)
     sill_neighbors sill_flags sill_flags sill_state0 = Some (Inr sill_state1)
   \<and> raise_lake_to_limit (Suc (Suc (Suc 0))) 2 sill_area_map sill_surface (Scalar 0, Scalar 0)
       sill_neighbors sill_flags sill_flags sill_state1 = Some (Inr sill_state2)
   \<and> vol_rem_at_pit sill_state0 0 = Some 2 \<and> vol_rem_at_pit sill_state0 2 = Some 2
   \<and> inundated_volume 0 sill_area_map sill_surface sill_state0 = 0
   \<and> inundated_volume 2 sill_area_map sill_surface sill_state0 = 0
   \<and> vol_rem_at_pit sill_state2 0 = Some 0 \<and> vol_rem_at_pit sill_state2 2 = None
   \<and> accum_area_at_pit sill_state2 0 = Some 2
   \<and> inundated_volume 0 sill_area_map sill_surface sill_state2 = 9 / 2
   \<and> (9 / 2 :: real) \<noteq> 2 + 2 - 0"
  by (simp add: sill_run_lake0 sill_run_lake2)
     (simp add: sill_defs inundated_volume_def upt_rec)

section \<open>The engine on its docstring example\<close>

text \<open>
  The first call of the docstring, on lake 7, leaves what the docstring
  expects: the same \<open>lake_map\<close>, level \<open>-5\<close>, area 8, remaining volume 80,
  spill node 14, lake 7 in the cross-lake queue and the nodes 6, 1, 12, 20,
  25, 18, 9 and 2 in the lake's queue.
\<close>

lemma bowl_first_call:
  "raise_lake_to_limit (Suc (Suc (Suc (Suc 0)))) 7 bowl_area_map bowl_surface (Scalar 0, Scalar 0)
     bowl_neighbors bowl_closed bowl_draining bowl_state0 = Some (Inr bowl_state1)"
  by (simp add: eval_defs engine_defs bowl_surface_def bowl_area_map_def bowl_neighbors_def
        bowl_closed_def bowl_draining_def bowl_state0_def bowl_state1_def fun_eq_iff
        eval_nat_numeral)


section \<open>Re-entry and the draining node\<close>

text \<open>
  C4. When the lake's spill node is set (not \<open>-1\<close>), a call of
  \<open>_raise_lake_to_limit\<close> returns before the loop, whatever the fuel, and
  every array, queue and dict it was given is as it was.
\<close>

theorem reentry_noop:
  assumes "lake_spill_node s current_pit = Some spill" and "spill \<noteq> -1"
  shows "raise_lake_to_limit fuel current_pit area_map init_water_surface wvbt neighbors
           closednodes drainingnodes s = Some (Inr s)"
  using assms by (simp add: raise_lake_to_limit_def)

theorem reentry_noop_witness:
  "lake_spill_node outlet_state1 0 = Some 1 \<and> (1::int) \<noteq> -1
   \<and> raise_lake_to_limit 0 0 outlet_area_map outlet_surface (Scalar 0, Scalar 0)
       outlet_neighbors outlet_closed outlet_draining outlet_state1 = Some (Inr outlet_state1)"
proof -
  have sp: "lake_spill_node outlet_state1 0 = Some 1" by (simp add: outlet_state1_def)
  have ne: "(1::int) \<noteq> -1" by simp
  from reentry_noop[OF sp ne] sp show ?thesis by simp
qed

text \<open>
  What the code does at a draining node that carries no spill code. When the
  popped node is not owned, the fill to its elevation succeeds, its code in
  \<open>lake_map\<close> is below \<open>2 * nnodes\<close> and it is draining, the pass ends in the
  \<open>break\<close> of line 424 with the node as the lake's spill node, marked with the
  spill code, and the level where the fill has put it.
\<close>

lemma draining_stop:
  assumes q: "lake_q_dict s cpit = Some q"
    and pop: "pop_task q = Inr (nnode, q')"
    and code: "np_get (lake_map s) nnode = Inr code"
    and unowned: "\<not> (0 \<le> code \<and> code < nnodes)"
    and filled: "raise_step cpit cnode nnode area_map surf_z wvbt nnodes
                   (s\<lparr>lake_q_dict := (lake_q_dict s)(cpit \<mapsto> q')\<rparr>) = Inr (True, s2)"
    and code2: "np_get (lake_map s2) nnode = Inr code2"
    and no_spill_code: "code2 < 2 * nnodes"
    and draining: "np_get drainingnodes nnode = Inr True"
  shows "\<exists>s'. loop_body area_map surf_z wvbt neighbors closednodes drainingnodes nnodes
               pit_nghb_code spill_code cpit cnode s = Inr (Break s')
           \<and> lake_spill_node s' cpit = Some nnode
           \<and> np_get (lake_map s') nnode = Inr spill_code
           \<and> lake_water_level s' = lake_water_level s2"
proof -
  from code2 obtain j where j: "np_index (lake_map s2) nnode = Some j"
    by (auto simp: np_get_def split: option.splits)
  then have "j < length (lake_map s2)"
    by (auto simp: np_index_def Let_def split: if_splits)
  with j have readback: "np_get ((lake_map s2)[j := spill_code]) nnode = Inr spill_code"
    by (auto simp: np_get_def np_index_def Let_def split: if_splits)
  from q pop code unowned filled code2 no_spill_code draining j readback show ?thesis
    by (simp add: loop_body_def bind_err_def dict_get_def np_set_def Let_def)
qed

lemma outlet_run_lake0:
  "raise_lake_to_limit (Suc (Suc 0)) 0 outlet_area_map outlet_surface (Scalar 0, Scalar 0)
     outlet_neighbors outlet_closed outlet_draining outlet_state0 = Some (Inr outlet_state1)"
  by (simp add: eval_defs engine_defs outlet_defs fun_eq_iff)

lemma outlet_run_lake2:
  "raise_lake_to_limit (Suc (Suc (Suc 0))) 2 outlet_area_map outlet_surface (Scalar 0, Scalar 0)
     outlet_neighbors outlet_closed outlet_draining outlet_state1 = Some (Inr outlet_state2)"
  by (simp add: eval_defs engine_defs outlet_defs fun_eq_iff)

text \<open>
  C7 fails on the code when a second lake reaches a draining node that
  another lake has already taken as its spill. In the outlet example node 1
  is draining, at elevation 1. The run on lake 0 fills to node 1, marks it and
  stops: spill node 1, level 1. The run on lake 2 then pops node 1, fills to
  its elevation, finds the spill code of lake 0 on it and merges before the
  draining test is reached; the loop goes on, and the merged lake, still
  called 0, ends with no spill node and its level at \<open>3/2\<close>, above the
  draining node.
\<close>

theorem draining_node_passed:
  "np_get outlet_draining 1 = Inr True \<and> np_get outlet_surface 1 = Inr 1
   \<and> raise_lake_to_limit (Suc (Suc 0)) 0 outlet_area_map outlet_surface (Scalar 0, Scalar 0)
       outlet_neighbors outlet_closed outlet_draining outlet_state0 = Some (Inr outlet_state1)
   \<and> lake_spill_node outlet_state1 0 = Some 1
   \<and> lake_water_level outlet_state1 0 = Some 1
   \<and> raise_lake_to_limit (Suc (Suc (Suc 0))) 2 outlet_area_map outlet_surface (Scalar 0, Scalar 0)
       outlet_neighbors outlet_closed outlet_draining outlet_state1 = Some (Inr outlet_state2)
   \<and> lake_spill_node outlet_state2 0 = Some (-1)
   \<and> lake_water_level outlet_state2 0 = Some (3 / 2)
   \<and> lake_water_level outlet_state2 2 = None
   \<and> (1 :: real) < 3 / 2"
  by (simp add: outlet_run_lake0 outlet_run_lake2)
     (simp add: outlet_defs np_get_def np_index_def)

section \<open>Properties of the merge\<close>

lemma isclose_refl: "isclose l l"
  by (simp add: isclose_def)

text \<open>
  C5. Take two different lakes at one level \<open>l\<close>, both registered, whose pits
  index \<open>z_topo\<close>; let \<open>low\<close> be \<open>this_pit\<close> if its elevation in \<open>z_topo\<close> is
  strictly the lower and \<open>that_pit\<close> otherwise, and \<open>hi\<close> the other one. Then
  \<open>_merge_two_lakes\<close> returns \<open>low\<close>; the queue of \<open>low\<close> is its queue merged
  with the queue of \<open>hi\<close>; its area, remaining volume and accumulated
  coefficient are the sums of the two lakes' values; no per-lake dict has an
  entry for \<open>hi\<close> any more; every node \<open>lake_map\<close> gave to \<open>hi\<close> it now gives
  to \<open>low\<close>, and no other entry has changed; the spill node of \<open>low\<close> is
  \<open>-1\<close>.
\<close>

theorem merge_conservation:
  assumes distinct: "this_pit \<noteq> that_pit"
    and levels: "lake_water_level s this_pit = Some l" "lake_water_level s that_pit = Some l"
    and topo: "np_get z_topo this_pit = Inr z_this" "np_get z_topo that_pit = Inr z_that"
    and low: "low = (if z_this < z_that then this_pit else that_pit)"
    and hi: "hi = (if z_this < z_that then that_pit else this_pit)"
    and queues: "lake_q_dict s low = Some q_low" "lake_q_dict s hi = Some q_hi"
    and areas: "accum_area_at_pit s low = Some a_low" "accum_area_at_pit s hi = Some a_hi"
    and vols: "vol_rem_at_pit s low = Some v_low" "vol_rem_at_pit s hi = Some v_hi"
    and Ks: "accum_Ks_at_pit s low = Some k_low" "accum_Ks_at_pit s hi = Some k_hi"
    and fulls: "lake_is_full s hi = Some f_hi"
    and spills: "lake_spill_node s hi = Some sp_hi"
  shows "\<exists>s'. merge_two_lakes this_pit that_pit z_topo s = Inr (low, s')
           \<and> lake_q_dict s' low = Some (merge_queues q_low q_hi)
           \<and> accum_area_at_pit s' low = Some (a_low + a_hi)
           \<and> vol_rem_at_pit s' low = Some (v_low + v_hi)
           \<and> accum_Ks_at_pit s' low = Some (k_low + k_hi)
           \<and> lake_q_dict s' hi = None \<and> lake_water_level s' hi = None
           \<and> accum_area_at_pit s' hi = None \<and> vol_rem_at_pit s' hi = None
           \<and> accum_Ks_at_pit s' hi = None \<and> lake_is_full s' hi = None
           \<and> lake_spill_node s' hi = None
           \<and> lake_map s' = map (\<lambda>v. if v = hi then low else v) (lake_map s)
           \<and> lake_spill_node s' low = Some (-1)
           \<and> lake_water_level s' low = Some l"
proof -
  from distinct low hi have lh: "low \<noteq> hi" by auto
  from low hi have pits: "(low = this_pit \<and> hi = that_pit) \<or> (low = that_pit \<and> hi = this_pit)"
    by auto
  from pits levels have ll: "lake_water_level s low = Some l" "lake_water_level s hi = Some l"
    by auto
  from pits queues obtain q_this q_that where
    q: "lake_q_dict s this_pit = Some q_this" "lake_q_dict s that_pit = Some q_that" by auto
  have m1: "merge_entry (accum_area_at_pit s) low hi
              = Inr (((accum_area_at_pit s)(hi := None))(low \<mapsto> a_low + a_hi))"
    using areas by (simp add: merge_entry_def bind_err_def dict_get_def)
  have m2: "merge_entry (vol_rem_at_pit s) low hi
              = Inr (((vol_rem_at_pit s)(hi := None))(low \<mapsto> v_low + v_hi))"
    using vols by (simp add: merge_entry_def bind_err_def dict_get_def)
  have m3: "merge_entry (accum_Ks_at_pit s) low hi
              = Inr (((accum_Ks_at_pit s)(hi := None))(low \<mapsto> k_low + k_hi))"
    using Ks by (simp add: merge_entry_def bind_err_def dict_get_def)
  have p1: "dict_pop (lake_water_level s) hi = Inr ((lake_water_level s)(hi := None))"
    using ll(2) by (simp add: dict_pop_def bind_err_def dict_get_def)
  have p2: "dict_pop (lake_is_full s) hi = Inr ((lake_is_full s)(hi := None))"
    using fulls by (simp add: dict_pop_def bind_err_def dict_get_def)
  have p3: "dict_pop (lake_spill_node s) hi = Inr ((lake_spill_node s)(hi := None))"
    using spills by (simp add: dict_pop_def bind_err_def dict_get_def)
  have "merge_two_lakes this_pit that_pit z_topo s =
          Inr (low,
               s\<lparr>lake_map := map (\<lambda>v. if v = hi then low else v) (lake_map s),
                 lake_q_dict := ((lake_q_dict s)(low \<mapsto> merge_queues q_low q_hi))(hi := None),
                 lake_water_level := (lake_water_level s)(hi := None),
                 accum_area_at_pit := ((accum_area_at_pit s)(hi := None))(low \<mapsto> a_low + a_hi),
                 vol_rem_at_pit := ((vol_rem_at_pit s)(hi := None))(low \<mapsto> v_low + v_hi),
                 accum_Ks_at_pit := ((accum_Ks_at_pit s)(hi := None))(low \<mapsto> k_low + k_hi),
                 lake_is_full := (lake_is_full s)(hi := None),
                 lake_spill_node := ((lake_spill_node s)(hi := None))(low \<mapsto> -1)\<rparr>)"
    unfolding merge_two_lakes_def
    using levels topo q queues m1 m2 m3 p1 p2 p3 low hi
    by (simp add: bind_err_def dict_get_def isclose_refl Let_def)
  then show ?thesis using lh ll by auto
qed

theorem merge_conservation_witness:
  "\<exists>s'. merge_two_lakes 2 0 outlet_surface outlet_merge_state = Inr (0, s')
      \<and> lake_q_dict s' 0 = Some (merge_queues [] [(2, 3)])
      \<and> accum_area_at_pit s' 0 = Some (1 + 1)
      \<and> vol_rem_at_pit s' 0 = Some (0 + 1)
      \<and> accum_Ks_at_pit s' 0 = Some (0 + 0)
      \<and> lake_q_dict s' 2 = None \<and> lake_water_level s' 2 = None
      \<and> accum_area_at_pit s' 2 = None \<and> vol_rem_at_pit s' 2 = None
      \<and> accum_Ks_at_pit s' 2 = None \<and> lake_is_full s' 2 = None
      \<and> lake_spill_node s' 2 = None
      \<and> lake_map s' = [0, 8, 0, 6]
      \<and> lake_spill_node s' 0 = Some (-1)
      \<and> lake_water_level s' 0 = Some 1"
proof -
  have "\<exists>s'. merge_two_lakes 2 0 outlet_surface outlet_merge_state = Inr (0, s')
      \<and> lake_q_dict s' 0 = Some (merge_queues [] [(2, 3)])
      \<and> accum_area_at_pit s' 0 = Some (1 + 1)
      \<and> vol_rem_at_pit s' 0 = Some (0 + 1)
      \<and> accum_Ks_at_pit s' 0 = Some (0 + 0)
      \<and> lake_q_dict s' 2 = None \<and> lake_water_level s' 2 = None
      \<and> accum_area_at_pit s' 2 = None \<and> vol_rem_at_pit s' 2 = None
      \<and> accum_Ks_at_pit s' 2 = None \<and> lake_is_full s' 2 = None
      \<and> lake_spill_node s' 2 = None
      \<and> lake_map s' = map (\<lambda>v. if v = 2 then 0 else v) (lake_map outlet_merge_state)
      \<and> lake_spill_node s' 0 = Some (-1)
      \<and> lake_water_level s' 0 = Some 1"
    by (rule merge_conservation[where z_this = 0 and z_that = 0 and f_hi = False and sp_hi = "-1"])
       (simp_all add: outlet_merge_state_def outlet_surface_def np_get_def np_index_def)
  then show ?thesis by (simp add: outlet_merge_state_def)
qed




section \<open>The entry point\<close>

text \<open>
  C10 fails on the code for the area and the level. The sort order
  \<open>pit_node_sort\<close> holds positions in \<open>pit_nodes\<close>; the source indexes
  \<open>pit_nodes\<close> and \<open>Vw_at_pits\<close> with it, and also the node arrays \<open>water_z\<close>
  and \<open>area_map\<close>. For the single pit 2 the position is 0, so the lake of pit
  2 gets the level and the area of node 0: level 5 where the water surface at
  the pit is 7, area 1 where the pit's cell area is 3.
\<close>

theorem entry_point_wrong_rows:
  "fill_depression_from_pit_discharges pit_grid [2] [10] [5, 6, 7] = Inr pit_locals
   \<and> np_get [5, 6, 7 :: real] 2 = Inr 7
   \<and> loc_lake_water_level pit_locals 2 = Some 5
   \<and> np_get (cell_area_at_node pit_grid) 2 = Inr 3
   \<and> loc_accum_area_at_pit pit_locals 2 = Some 1"
  by (simp add: fill_depression_from_pit_discharges_def argsort_def register_pit_def
        bind_err_def np_get_def np_index_def pit_grid_def pit_locals_def numeral_3_eq_3)

end
